theory Spec2Isabelle
  imports Complex_Main
begin

section \<open>Data model of the triple validation engine\<close>

text \<open>
  The development embeds \<^verbatim>\<open>src/validation/comprehensive_validator.py\<close>.

  Records submitted for validation are Python values. A dictionary is an association list
  with string keys (the engine's records are string-keyed); lookup takes the first binding.
  Strings are lists of characters, each character standing for one code point below 256.

  Numbers: Python's \<^verbatim>\<open>int\<close> is \<open>int\<close>; a \<^verbatim>\<open>float\<close> is carried by the rational
  number it denotes and float arithmetic is taken to be exact. Rounding, infinities and NaN
  are outside the model; the one float failure that is an exception of the program, the
  \<^verbatim>\<open>OverflowError\<close> of \<^verbatim>\<open>int / int\<close> and of the conversion of a huge \<^verbatim>\<open>int\<close>, is a
  branch of the model.
\<close>

datatype pyval =
    PNone
  | PBool bool
  | PInt int
  | PFloat rat
  | PStr string
  | PList "pyval list"
  | PDict "(string \<times> pyval) list"

datatype error = TypeError | OverflowError | ZeroDivisionError

datatype ValidationLevel = STRICT | STANDARD | RELAXED

datatype ValidationStatus = PASSED | FAILED | WARNING | PENDING

text \<open>A \<^verbatim>\<open>datetime\<close> is a count of microseconds.\<close>

type_synonym datetime = int

record ValidationResult =
  step :: string
  status :: ValidationStatus
  score :: rat
  confidence :: rat
  errors :: "string list"
  warnings :: "string list"
  details :: "(string \<times> pyval) list"
  timestamp :: datetime

record TripleValidationReport =
  validation_id :: string
  data_type :: string
  level :: ValidationLevel
  step1_result :: "ValidationResult option"
  step2_result :: "ValidationResult option"
  step3_result :: "ValidationResult option"
  overall_status :: ValidationStatus
  overall_score :: rat
  overall_confidence :: rat
  start_time :: datetime
  end_time :: "datetime option"

section \<open>Consensus aggregator\<close>

text \<open>
  \<^verbatim>\<open>TripleValidationReport.calculate_overall\<close>. The comprehension
  \<^verbatim>\<open>[r for r in [step1, step2, step3] if r]\<close> keeps the results that are not \<^verbatim>\<open>None\<close>
  (an instance of the dataclass is always truthy).
\<close>

definition present_results :: "TripleValidationReport \<Rightarrow> ValidationResult list" where
  "present_results rep =
     List.map_filter (\<lambda>r. r) [step1_result rep, step2_result rep, step3_result rep]"

definition weights :: "rat list" where
  "weights = [4 / 10, 35 / 100, 25 / 100]"

text \<open>The loop \<^verbatim>\<open>for i, result in enumerate(results)\<close> with its two accumulators.\<close>

fun accumulate :: "nat \<Rightarrow> ValidationResult list \<Rightarrow> rat \<times> rat \<Rightarrow> rat \<times> rat" where
  "accumulate i [] acc = acc"
| "accumulate i (result # rest) (total_score, total_confidence) =
     (let weight = (if i < length weights then weights ! i else last weights)
      in accumulate (Suc i) rest
           (total_score + score result * weight, total_confidence + confidence result * weight))"

definition calculate_overall :: "datetime \<Rightarrow> TripleValidationReport \<Rightarrow> TripleValidationReport" where
  "calculate_overall now rep =
     (let results = present_results rep in
      if results = [] then rep
      else
        let (total_score, total_confidence) = accumulate 0 results (0, 0);
            all_passed = list_all (\<lambda>r. status r = PASSED) results;
            any_failed = list_ex (\<lambda>r. status r = FAILED) results
        in rep\<lparr> overall_status :=
                   (if all_passed then PASSED else if any_failed then FAILED else WARNING),
                 overall_score := total_score,
                 overall_confidence := total_confidence,
                 end_time := Some now \<rparr>)"

text \<open>A report in which all three stage results are present.\<close>

definition with_stages ::
  "TripleValidationReport \<Rightarrow> ValidationResult \<Rightarrow> ValidationResult \<Rightarrow> ValidationResult
     \<Rightarrow> TripleValidationReport" where
  "with_stages rep r1 r2 r3 =
     rep\<lparr> step1_result := Some r1, step2_result := Some r2, step3_result := Some r3 \<rparr>"

section \<open>Python primitives used by the stages\<close>

text \<open>Truth value of an object, as tested by \<^verbatim>\<open>if x\<close>, \<^verbatim>\<open>x and y\<close> and \<^verbatim>\<open>bool(x)\<close>.\<close>

fun truthy :: "pyval \<Rightarrow> bool" where
  "truthy PNone = False"
| "truthy (PBool b) = b"
| "truthy (PInt n) = (n \<noteq> 0)"
| "truthy (PFloat x) = (x \<noteq> 0)"
| "truthy (PStr s) = (s \<noteq> [])"
| "truthy (PList xs) = (xs \<noteq> [])"
| "truthy (PDict d) = (d \<noteq> [])"

text \<open>\<^verbatim>\<open>len(x)\<close>: defined on strings, lists and dictionaries, \<^verbatim>\<open>TypeError\<close> elsewhere.\<close>

fun py_len :: "pyval \<Rightarrow> error + nat" where
  "py_len (PStr s) = Inr (length s)"
| "py_len (PList xs) = Inr (length xs)"
| "py_len (PDict d) = Inr (length d)"
| "py_len _ = Inl TypeError"

text \<open>\<^verbatim>\<open>type(x).__name__\<close>.\<close>

fun type_name :: "pyval \<Rightarrow> string" where
  "type_name PNone = ''NoneType''"
| "type_name (PBool _) = ''bool''"
| "type_name (PInt _) = ''int''"
| "type_name (PFloat _) = ''float''"
| "type_name (PStr _) = ''str''"
| "type_name (PList _) = ''list''"
| "type_name (PDict _) = ''dict''"

text \<open>\<^verbatim>\<open>str(n)\<close> of a natural number, as interpolated by an f-string.\<close>

definition digit_char :: "nat \<Rightarrow> char" where
  "digit_char d = char_of (48 + d)"

fun str_nat :: "nat \<Rightarrow> string" where
  "str_nat n = (if n < 10 then [digit_char n] else str_nat (n div 10) @ [digit_char (n mod 10)])"

declare str_nat.simps [simp del]

definition quoted :: "string \<Rightarrow> string" where
  "quoted s = [CHR 0x27] @ s @ [CHR 0x27]"

text \<open>\<^verbatim>\<open>items = data if isinstance(data, list) else [data]\<close>, shared by the three stages.\<close>

fun as_items :: "pyval \<Rightarrow> pyval list" where
  "as_items (PList xs) = xs"
| "as_items data = [data]"

section \<open>Stage 1: schema validation\<close>

record SchemaDefinition =
  required :: "string list"
  optional :: "string list"

definition lead_schema :: SchemaDefinition where
  "lead_schema =
     \<lparr> required = [''id'', ''source_url'', ''scraped_at''],
       optional = [''address'', ''price'', ''property_type'', ''status'', ''owner_name''] \<rparr>"

definition SCHEMAS :: "(string \<times> SchemaDefinition) list" where
  "SCHEMAS =
     [ (''lead'', lead_schema),
       (''property'',
          \<lparr> required = [''id'', ''address'', ''property_type''],
            optional = [''list_price'', ''estimated_value'', ''roi_percent'', ''county'',
                        ''state''] \<rparr>),
       (''intelligence'',
          \<lparr> required = [''id'', ''type'', ''source'', ''timestamp''],
            optional = [''confidence'', ''data'', ''metadata''] \<rparr>),
       (''repository'',
          \<lparr> required = [''name'', ''full_name''],
            optional = [''description'', ''language'', ''stars'', ''forks''] \<rparr>) ]"

record SchemaValidator =
  sv_data_type :: string
  sv_schema :: SchemaDefinition

text \<open>
  \<^verbatim>\<open>SchemaValidator.__init__\<close>:
  \<^verbatim>\<open>self.schema = self.SCHEMAS.get(data_type, self.SCHEMAS['lead'])\<close>.
\<close>

definition SchemaValidator_init :: "string \<Rightarrow> SchemaValidator" where
  "SchemaValidator_init dt =
     \<lparr> sv_data_type = dt,
       sv_schema = (case map_of SCHEMAS dt of Some s \<Rightarrow> s | None \<Rightarrow> lead_schema) \<rparr>"

text \<open>The body of the loop over the required fields in \<^verbatim>\<open>_validate_item\<close>.\<close>

definition field_errors :: "(string \<times> pyval) list \<Rightarrow> string \<Rightarrow> string \<Rightarrow> string list" where
  "field_errors item path field =
     (case map_of item field of
        None \<Rightarrow> [path @ '': Missing required field '' @ quoted field]
      | Some v \<Rightarrow>
          if v = PNone \<or> v = PStr ''''
          then [path @ '': Required field '' @ quoted field @ '' is empty'']
          else [])"

text \<open>\<^verbatim>\<open>SchemaValidator._validate_item\<close>.\<close>

fun validate_item :: "SchemaDefinition \<Rightarrow> pyval \<Rightarrow> string \<Rightarrow> string list" where
  "validate_item schema (PDict item) path =
     concat (map (field_errors item path) (required schema))"
| "validate_item schema item path = [path @ '': Expected dict, got '' @ type_name item]"

definition item_path :: "nat \<Rightarrow> string" where
  "item_path i = ''item['' @ str_nat i @ '']''"

text \<open>
  One iteration of \<^verbatim>\<open>for i, item in enumerate(items)\<close> in \<^verbatim>\<open>SchemaValidator.validate\<close>,
  on the state \<open>(errors, validated_count, total_count)\<close>.
\<close>

fun sv_step ::
  "SchemaDefinition \<Rightarrow> nat \<times> pyval \<Rightarrow> string list \<times> nat \<times> nat \<Rightarrow> string list \<times> nat \<times> nat" where
  "sv_step schema (i, item) (errs, validated_count, total_count) =
     (let total_count = total_count + 1;
          item_errors = validate_item schema item (item_path i)
      in if item_errors \<noteq> [] then (errs @ item_errors, validated_count, total_count)
         else (errs, validated_count + 1, total_count))"

text \<open>\<^verbatim>\<open>SchemaValidator.validate\<close>; \<open>now\<close> is the reading of the clock for the timestamp.\<close>

definition SchemaValidator_validate :: "SchemaValidator \<Rightarrow> datetime \<Rightarrow> pyval \<Rightarrow> ValidationResult" where
  "SchemaValidator_validate self now data =
     (let items = as_items data;
          (errs, validated_count, total_count) =
             fold (sv_step (sv_schema self)) (List.enumerate 0 items) ([], 0, 0);
          score = (if total_count > 0 then of_nat validated_count / of_nat total_count else 0);
          confidence = 1 - of_nat (length errs) * (1 / 10);
          confidence = max 0 (min 1 confidence);
          status = (if errs = [] then PASSED else FAILED)
      in \<lparr> step = ''Schema Validation'',
           status = status,
           score = score,
           confidence = confidence,
           errors = errs,
           warnings = [],
           details = [ (''total_items'', PInt (int total_count)),
                       (''validated_items'', PInt (int validated_count)),
                       (''schema_type'', PStr (sv_data_type self)) ],
           timestamp = now \<rparr>)"

section \<open>Stage 2: cross-reference validation\<close>

text \<open>\<^verbatim>\<open>item.get(key, default)\<close>.\<close>

definition dict_get :: "(string \<times> pyval) list \<Rightarrow> string \<Rightarrow> pyval \<Rightarrow> pyval" where
  "dict_get d k dflt = (case map_of d k of Some v \<Rightarrow> v | None \<Rightarrow> dflt)"

text \<open>
  \<^verbatim>\<open>CrossReferenceValidator._validate_id_format\<close>:
  \<^verbatim>\<open>bool(id_value) and len(id_value) >= 1 and len(id_value) <= 256\<close>. The conjunction
  stops at a falsy \<^verbatim>\<open>id_value\<close>; otherwise \<^verbatim>\<open>len\<close> is called and may raise.
\<close>

definition validate_id_format :: "pyval \<Rightarrow> error + bool" where
  "validate_id_format id_value =
     (if \<not> truthy id_value then Inr False
      else case py_len id_value of
             Inl e \<Rightarrow> Inl e
           | Inr n \<Rightarrow> Inr (n \<ge> 1 \<and> n \<le> 256))"

text \<open>
  The first check of the loop body of \<^verbatim>\<open>CrossReferenceValidator.validate\<close>:
  \<^verbatim>\<open>item_id = item.get('id', '')\<close> and the condition
  \<^verbatim>\<open>item_id and self._validate_id_format(item_id)\<close>.
\<close>

definition id_check :: "(string \<times> pyval) list \<Rightarrow> error + bool" where
  "id_check item =
     (let item_id = dict_get item ''id'' (PStr '''')
      in if truthy item_id then validate_id_format item_id else Inr False)"

text \<open>\<^verbatim>\<open>isinstance(x, (int, float))\<close>; \<^verbatim>\<open>bool\<close> is a subclass of \<^verbatim>\<open>int\<close>.\<close>

fun is_number :: "pyval \<Rightarrow> bool" where
  "is_number (PBool _) = True"
| "is_number (PInt _) = True"
| "is_number (PFloat _) = True"
| "is_number _ = False"

fun is_float :: "pyval \<Rightarrow> bool" where
  "is_float (PFloat _) = True"
| "is_float _ = False"

fun num_val :: "pyval \<Rightarrow> rat" where
  "num_val (PBool b) = (if b then 1 else 0)"
| "num_val (PInt n) = of_int n"
| "num_val (PFloat x) = x"
| "num_val _ = 0"

text \<open>
  A rational of this magnitude or more rounds beyond the largest binary64 number:
  converting such an \<^verbatim>\<open>int\<close> to \<^verbatim>\<open>float\<close>, or dividing two \<^verbatim>\<open>int\<close>s with such a
  quotient, raises \<^verbatim>\<open>OverflowError\<close>.
\<close>

definition float_overflow :: "rat \<Rightarrow> bool" where
  "float_overflow q = (\<bar>q\<bar> \<ge> 2 ^ 1024 - 2 ^ 970)"

text \<open>
  \<^verbatim>\<open>a / b\<close> on two numbers. With a \<^verbatim>\<open>float\<close> operand the other operand is converted
  first; two \<^verbatim>\<open>int\<close>s are divided exactly and the quotient is converted.
\<close>

definition true_div :: "pyval \<Rightarrow> pyval \<Rightarrow> error + rat" where
  "true_div a b =
     (if is_float a \<or> is_float b then
        (if (\<not> is_float a \<and> float_overflow (num_val a))
            \<or> (\<not> is_float b \<and> float_overflow (num_val b)) then Inl OverflowError
         else if num_val b = 0 then Inl ZeroDivisionError
         else Inr (num_val a / num_val b))
      else if num_val b = 0 then Inl ZeroDivisionError
      else if float_overflow (num_val a / num_val b) then Inl OverflowError
      else Inr (num_val a / num_val b))"

text \<open>\<^verbatim>\<open>CrossReferenceValidator._check_internal_consistency\<close>.\<close>

definition check_internal_consistency :: "(string \<times> pyval) list \<Rightarrow> error + bool" where
  "check_internal_consistency item =
     (if map_of item ''price'' \<noteq> None \<and> map_of item ''estimated_value'' \<noteq> None then
        (let price = dict_get item ''price'' PNone;
             estimated = dict_get item ''estimated_value'' PNone
         in if truthy price \<and> truthy estimated \<and> is_number price \<and> is_number estimated then
              (case (if num_val estimated \<noteq> 0 then true_div price estimated else Inr 0) of
                 Inl e \<Rightarrow> Inl e
               | Inr ratio \<Rightarrow> if ratio < 1 / 10 \<or> ratio > 10 then Inr False else Inr True)
            else Inr True)
      else Inr True)"

text \<open>
  One iteration of \<^verbatim>\<open>for item in items\<close> on the tally \<open>(matches, mismatches)\<close>; an item
  that is not a dictionary is skipped.
\<close>

definition tally :: "bool \<Rightarrow> nat \<times> nat \<Rightarrow> nat \<times> nat" where
  "tally ok mm = (if ok then (fst mm + 1, snd mm) else (fst mm, snd mm + 1))"

fun cr_step :: "pyval \<Rightarrow> nat \<times> nat \<Rightarrow> error + nat \<times> nat" where
  "cr_step (PDict item) mm =
     (case id_check item of
        Inl e \<Rightarrow> Inl e
      | Inr ok \<Rightarrow>
          (case check_internal_consistency item of
             Inl e \<Rightarrow> Inl e
           | Inr consistent \<Rightarrow> Inr (tally consistent (tally ok mm))))"
| "cr_step _ mm = Inr mm"

fun cr_loop :: "pyval list \<Rightarrow> nat \<times> nat \<Rightarrow> error + nat \<times> nat" where
  "cr_loop [] mm = Inr mm"
| "cr_loop (item # rest) mm =
     (case cr_step item mm of Inl e \<Rightarrow> Inl e | Inr mm' \<Rightarrow> cr_loop rest mm')"

text \<open>\<^verbatim>\<open>CrossReferenceValidator.validate\<close>.\<close>

definition CrossReferenceValidator_validate :: "datetime \<Rightarrow> pyval \<Rightarrow> error + ValidationResult" where
  "CrossReferenceValidator_validate now data =
     (case cr_loop (as_items data) (0, 0) of
        Inl e \<Rightarrow> Inl e
      | Inr (matches, mismatches) \<Rightarrow>
          (let total = matches + mismatches;
               score = (if total > 0 then of_nat matches / of_nat total else 1);
               status = (if mismatches = 0 then PASSED
                         else if score \<ge> 8 / 10 then WARNING else FAILED)
           in Inr \<lparr> step = ''Cross-Reference Validation'',
                    status = status,
                    score = score,
                    confidence = score,
                    errors = [],
                    warnings = [],
                    details = [ (''matches'', PInt (int matches)),
                                (''mismatches'', PInt (int mismatches)),
                                (''total_checks'', PInt (int total)) ],
                    timestamp = now \<rparr>))"

section \<open>Stage 3: external verification\<close>

record ExternalVerifier =
  gemini_api_key :: "string option"
  gcp_sa_key :: "string option"

text \<open>\<^verbatim>\<open>ExternalVerifier.__init__\<close> reads the process environment, a map from names to strings.\<close>

definition ExternalVerifier_init :: "(string \<rightharpoonup> string) \<Rightarrow> ExternalVerifier" where
  "ExternalVerifier_init environ =
     \<lparr> gemini_api_key = environ ''GEMINI_API_KEY'', gcp_sa_key = environ ''GCP_SA_KEY'' \<rparr>"

text \<open>Truth value of an optional string: set and not empty.\<close>

fun truthy_str :: "string option \<Rightarrow> bool" where
  "truthy_str None = False"
| "truthy_str (Some s) = (s \<noteq> [])"

text \<open>
  \<^verbatim>\<open>str.lower\<close> on code points below 256: the ASCII capitals and the Latin-1 capitals
  (the multiplication sign excepted) move up by 32.
\<close>

definition lower_char :: "char \<Rightarrow> char" where
  "lower_char c =
     (let n = (of_char c :: nat)
      in if (65 \<le> n \<and> n \<le> 90) \<or> (192 \<le> n \<and> n \<le> 222 \<and> n \<noteq> 215) then char_of (n + 32) else c)"

definition lower :: "string \<Rightarrow> string" where
  "lower s = map lower_char s"

text \<open>\<^verbatim>\<open>x in s\<close> on strings: \<open>x\<close> occurs in \<open>s\<close> as a contiguous run.\<close>

fun starts_with :: "string \<Rightarrow> string \<Rightarrow> bool" where
  "starts_with [] s = True"
| "starts_with (a # x) [] = False"
| "starts_with (a # x) (c # s) = (a = c \<and> starts_with x s)"

fun contains :: "string \<Rightarrow> string \<Rightarrow> bool" where
  "contains x [] = (x = [])"
| "contains x (c # s) = (starts_with x (c # s) \<or> contains x s)"

definition placeholder_tokens :: "string list" where
  "placeholder_tokens = [''test'', ''dummy'', ''fake'', ''xxx'', ''placeholder'']"

text \<open>
  \<^verbatim>\<open>ExternalVerifier._is_reasonable_data\<close>: the loop over \<^verbatim>\<open>item.items()\<close> returns
  \<^verbatim>\<open>False\<close> at the first string value holding a token.
\<close>

fun is_reasonable_data :: "(string \<times> pyval) list \<Rightarrow> bool" where
  "is_reasonable_data [] = True"
| "is_reasonable_data ((key, PStr v) # rest) =
     (let lower_val = lower v
      in if list_ex (\<lambda>x. contains x lower_val) placeholder_tokens then False
         else is_reasonable_data rest)"
| "is_reasonable_data ((key, v) # rest) = is_reasonable_data rest"

text \<open>\<^verbatim>\<open>isinstance(item, dict) and self._is_reasonable_data(item)\<close>.\<close>

fun valid_item :: "pyval \<Rightarrow> bool" where
  "valid_item (PDict item) = is_reasonable_data item"
| "valid_item _ = False"

text \<open>\<^verbatim>\<open>ExternalVerifier.validate\<close>.\<close>

definition ExternalVerifier_validate :: "ExternalVerifier \<Rightarrow> datetime \<Rightarrow> pyval \<Rightarrow> ValidationResult" where
  "ExternalVerifier_validate self now data =
     (let v1 = (if truthy_str (gemini_api_key self)
                then (True, ''Gemini API'', ''API key present'')
                else (False, ''Gemini API'', ''API key not configured''));
          items = as_items data;
          valid_items = length (filter valid_item items);
          ratio = (if items \<noteq> [] then of_nat valid_items / of_nat (length items) else (0 :: rat));
          v2 = (if ratio \<ge> 9 / 10
                then (True, ''Data Patterns'',
                      str_nat valid_items @ ''/'' @ str_nat (length items) @ '' items valid'')
                else (False, ''Data Patterns'',
                      ''Only '' @ str_nat valid_items @ ''/'' @ str_nat (length items)
                        @ '' items valid''));
          verifications = [v1, v2];
          passed = length (filter fst verifications);
          total = length verifications;
          score = (if total > 0 then of_nat passed / of_nat total else 0);
          status = (if passed = total then PASSED
                    else if score \<ge> 1 / 2 then WARNING else FAILED)
      in \<lparr> step = ''External Verification'',
           status = status,
           score = score,
           confidence = score * (9 / 10),
           errors = map (\<lambda>v. snd (snd v)) (filter (\<lambda>v. \<not> fst v) verifications),
           warnings = [],
           details = [ (''verified'', PInt (int passed)), (''total'', PInt (int total)) ],
           timestamp = now \<rparr>)"

section \<open>Orchestrator\<close>

text \<open>
  Library functions the orchestrator calls and whose results no stage reads: the JSON
  rendering and MD5 digest behind the validation id, and the two renderings of a
  \<^verbatim>\<open>datetime\<close>. They are parameters of the model.
\<close>

record library =
  json_dumps :: "pyval \<Rightarrow> string"
  md5_hexdigest :: "string \<Rightarrow> string"
  strftime :: "datetime \<Rightarrow> string"
  isoformat :: "datetime \<Rightarrow> string"

record ComprehensiveValidator =
  cv_level :: ValidationLevel
  cv_data_type :: string
  schema_validator :: SchemaValidator
  external_verifier :: ExternalVerifier

text \<open>\<^verbatim>\<open>ComprehensiveValidator.__init__\<close>; the cross-reference validator has no state.\<close>

definition ComprehensiveValidator_init ::
  "(string \<rightharpoonup> string) \<Rightarrow> ValidationLevel \<Rightarrow> string \<Rightarrow> ComprehensiveValidator" where
  "ComprehensiveValidator_init environ lvl dt =
     \<lparr> cv_level = lvl,
       cv_data_type = dt,
       schema_validator = SchemaValidator_init dt,
       external_verifier = ExternalVerifier_init environ \<rparr>"

text \<open>\<^verbatim>\<open>ComprehensiveValidator._generate_validation_id\<close>.\<close>

definition generate_validation_id :: "library \<Rightarrow> datetime \<Rightarrow> pyval \<Rightarrow> string" where
  "generate_validation_id lib now data =
     (let data_str = json_dumps lib data;
          hash_val = take 8 (md5_hexdigest lib data_str);
          timestamp = strftime lib now
      in ''val_'' @ timestamp @ ''_'' @ hash_val)"

text \<open>
  \<^verbatim>\<open>ComprehensiveValidator.validate\<close>. \<open>clock k\<close> is the \<open>k\<close>-th reading of
  \<^verbatim>\<open>datetime.now()\<close> during the call: for the id, the start time, the three stage results
  and the end time. An exception of stage 2 leaves the method at that point.
\<close>

definition ComprehensiveValidator_validate ::
  "library \<Rightarrow> ComprehensiveValidator \<Rightarrow> (nat \<Rightarrow> datetime) \<Rightarrow> pyval
     \<Rightarrow> error + TripleValidationReport" where
  "ComprehensiveValidator_validate lib self clock data =
     (let validation_id = generate_validation_id lib (clock 0) data;
          report = \<lparr> validation_id = validation_id,
                     data_type = cv_data_type self,
                     level = cv_level self,
                     step1_result = None,
                     step2_result = None,
                     step3_result = None,
                     overall_status = PENDING,
                     overall_score = 0,
                     overall_confidence = 0,
                     start_time = clock 1,
                     end_time = None \<rparr>;
          report = report\<lparr> step1_result :=
                     Some (SchemaValidator_validate (schema_validator self) (clock 2) data) \<rparr>
      in case CrossReferenceValidator_validate (clock 3) data of
           Inl e \<Rightarrow> Inl e
         | Inr r2 \<Rightarrow>
             (let report = report\<lparr> step2_result := Some r2 \<rparr>;
                  report = report\<lparr> step3_result :=
                     Some (ExternalVerifier_validate (external_verifier self) (clock 4) data) \<rparr>
              in Inr (calculate_overall (clock 5) report)))"

text \<open>
  \<^verbatim>\<open>asyncio.gather(*tasks)\<close> without \<^verbatim>\<open>return_exceptions\<close>. \<open>outcomes\<close> holds what each
  task ends with, in the order of the arguments; \<open>completion\<close> lists task indices in the
  order the tasks finish. The first exception in that order is raised to the caller; when
  no task raises, the results come back in the order of the arguments. Tasks that
  \<open>completion\<close> does not mention are taken to finish afterwards, in argument order. (The
  coroutines of this program never suspend, so their tasks finish in argument order.)
\<close>

fun collect :: "(error + 'a) list \<Rightarrow> error + 'a list" where
  "collect [] = Inr []"
| "collect (Inl e # rest) = Inl e"
| "collect (Inr x # rest) = (case collect rest of Inl e \<Rightarrow> Inl e | Inr xs \<Rightarrow> Inr (x # xs))"

definition gather :: "nat list \<Rightarrow> (error + 'a) list \<Rightarrow> error + 'a list" where
  "gather completion outcomes =
     (case List.find isl (map (\<lambda>i. outcomes ! i) (filter (\<lambda>i. i < length outcomes) completion)) of
        Some (Inl e) \<Rightarrow> Inl e
      | _ \<Rightarrow> collect outcomes)"

text \<open>
  \<^verbatim>\<open>ComprehensiveValidator.validate_batch\<close>; \<open>clocks i\<close> gives the clock readings of
  the validation of item \<open>i\<close>.
\<close>

definition validate_batch ::
  "library \<Rightarrow> ComprehensiveValidator \<Rightarrow> nat list \<Rightarrow> (nat \<Rightarrow> nat \<Rightarrow> datetime) \<Rightarrow> pyval list
     \<Rightarrow> error + TripleValidationReport list" where
  "validate_batch lib self completion clocks items =
     (let tasks = map (\<lambda>(i, item). ComprehensiveValidator_validate lib self (clocks i) item)
                    (List.enumerate 0 items)
      in gather completion tasks)"

text \<open>\<^verbatim>\<open>ValidationStatus.value\<close> and \<^verbatim>\<open>ValidationLevel.value\<close>.\<close>

fun status_value :: "ValidationStatus \<Rightarrow> string" where
  "status_value PASSED = ''passed''"
| "status_value FAILED = ''failed''"
| "status_value WARNING = ''warning''"
| "status_value PENDING = ''pending''"

fun level_value :: "ValidationLevel \<Rightarrow> string" where
  "level_value STRICT = ''strict''"
| "level_value STANDARD = ''standard''"
| "level_value RELAXED = ''relaxed''"

text \<open>\<^verbatim>\<open>ValidationResult.to_dict\<close>.\<close>

definition ValidationResult_to_dict :: "library \<Rightarrow> ValidationResult \<Rightarrow> pyval" where
  "ValidationResult_to_dict lib r =
     PDict [ (''step'', PStr (step r)),
             (''status'', PStr (status_value (status r))),
             (''score'', PFloat (score r)),
             (''confidence'', PFloat (confidence r)),
             (''errors'', PList (map PStr (errors r))),
             (''warnings'', PList (map PStr (warnings r))),
             (''details'', PDict (details r)),
             (''timestamp'', PStr (isoformat lib (timestamp r))) ]"

definition opt_to_dict :: "library \<Rightarrow> ValidationResult option \<Rightarrow> pyval" where
  "opt_to_dict lib r = (case r of Some x \<Rightarrow> ValidationResult_to_dict lib x | None \<Rightarrow> PNone)"

text \<open>
  \<^verbatim>\<open>TripleValidationReport.to_dict\<close>; \<^verbatim>\<open>total_seconds()\<close> of a difference of two
  \<^verbatim>\<open>datetime\<close>s is their distance in microseconds over a million.
\<close>

definition TripleValidationReport_to_dict :: "library \<Rightarrow> TripleValidationReport \<Rightarrow> pyval" where
  "TripleValidationReport_to_dict lib rep =
     PDict [ (''validation_id'', PStr (validation_id rep)),
             (''data_type'', PStr (data_type rep)),
             (''level'', PStr (level_value (level rep))),
             (''step1'', opt_to_dict lib (step1_result rep)),
             (''step2'', opt_to_dict lib (step2_result rep)),
             (''step3'', opt_to_dict lib (step3_result rep)),
             (''overall_status'', PStr (status_value (overall_status rep))),
             (''overall_score'', PFloat (overall_score rep)),
             (''overall_confidence'', PFloat (overall_confidence rep)),
             (''start_time'', PStr (isoformat lib (start_time rep))),
             (''end_time'',
                (case end_time rep of Some t \<Rightarrow> PStr (isoformat lib t) | None \<Rightarrow> PNone)),
             (''duration_seconds'',
                (case end_time rep of
                   Some t \<Rightarrow> PFloat (of_int (t - start_time rep) / 1000000)
                 | None \<Rightarrow> PNone)) ]"

text \<open>The dictionary returned by \<^verbatim>\<open>validate_all_intelligence\<close>, with its five fixed keys.\<close>

record BatchSummary =
  total :: nat
  passed :: nat
  failed :: nat
  pass_rate :: rat
  reports :: "pyval list"

text \<open>\<^verbatim>\<open>validate_all_intelligence\<close>.\<close>

definition validate_all_intelligence ::
  "library \<Rightarrow> (string \<rightharpoonup> string) \<Rightarrow> nat list \<Rightarrow> (nat \<Rightarrow> nat \<Rightarrow> datetime) \<Rightarrow> pyval list
     \<Rightarrow> error + BatchSummary" where
  "validate_all_intelligence lib environ completion clocks data_list =
     (let validator = ComprehensiveValidator_init environ STRICT ''lead''
      in case validate_batch lib validator completion clocks data_list of
           Inl e \<Rightarrow> Inl e
         | Inr reps \<Rightarrow>
             (let n_passed = length (filter (\<lambda>r. overall_status r = PASSED) reps);
                  n_failed = length (filter (\<lambda>r. overall_status r = FAILED) reps)
              in Inr \<lparr> total = length reps,
                       passed = n_passed,
                       failed = n_failed,
                       pass_rate = (if reps \<noteq> [] then of_nat n_passed / of_nat (length reps) else 0),
                       reports = map (TripleValidationReport_to_dict lib) reps \<rparr>))"

section \<open>Sample inputs\<close>

text \<open>
  Concrete values at which the properties below are evaluated: stand-ins for the library
  functions, an environment holding the API key, clocks, and a few records. \<open>lead_001\<close>
  is the record of the module's own \<^verbatim>\<open>main\<close>.
\<close>

definition sample_library :: library where
  "sample_library =
     \<lparr> json_dumps = (\<lambda>data. ''{}''),
       md5_hexdigest = (\<lambda>s. ''d41d8cd98f00b204e9800998ecf8427e''),
       strftime = (\<lambda>t. ''20260111000000''),
       isoformat = (\<lambda>t. ''2026-01-11T00:00:00'') \<rparr>"

definition sample_environ :: "string \<rightharpoonup> string" where
  "sample_environ = [''GEMINI_API_KEY'' \<mapsto> ''key'']"

definition sample_clocks :: "nat \<Rightarrow> nat \<Rightarrow> datetime" where
  "sample_clocks i k = int (6 * i + k)"

definition lead_001 :: "(string \<times> pyval) list" where
  "lead_001 =
     [ (''id'', PStr ''lead_001''),
       (''source_url'', PStr ''https://example.com/property/1''),
       (''scraped_at'', PStr ''2026-01-11T00:00:00Z''),
       (''address'', PStr ''123 Main St, Port St. Lucie, FL 34952''),
       (''price'', PInt 250000) ]"

definition lead_002 :: "(string \<times> pyval) list" where
  "lead_002 =
     [ (''id'', PStr ''lead_002''),
       (''source_url'', PStr ''https://example.com/property/2''),
       (''scraped_at'', PStr ''2026-01-12T00:00:00Z''),
       (''price'', PInt 180000),
       (''estimated_value'', PInt 200000) ]"

definition no_id_record :: "(string \<times> pyval) list" where
  "no_id_record =
     [ (''source_url'', PStr ''https://example.com/property/3''),
       (''price'', PInt 250000) ]"



definition int_id_record :: "(string \<times> pyval) list" where
  "int_id_record =
     [ (''id'', PInt 7),
       (''source_url'', PStr ''https://example.com/property/7''),
       (''scraped_at'', PStr ''2026-01-13T00:00:00Z'') ]"

definition numeric_id_record :: "(string \<times> pyval) list" where
  "numeric_id_record = [ (''id'', PInt 12345), (''address'', PStr ''9 Elm Rd'') ]"

section \<open>Verified properties\<close>

subsection \<open>Aggregator\<close>

lemma present_results_with_stages: "present_results (with_stages rep r1 r2 r3) = [r1, r2, r3]"
  by (simp add: present_results_def with_stages_def)

lemma accumulate_three:
  "accumulate 0 [r1, r2, r3] (0, 0) =
     (score r1 * (4 / 10) + score r2 * (35 / 100) + score r3 * (25 / 100),
      confidence r1 * (4 / 10) + confidence r2 * (35 / 100) + confidence r3 * (25 / 100))"
  by (simp add: weights_def)

text \<open>
  C1. When all three stage results are present, the overall status is PASSED exactly when
  all three stage statuses are PASSED, FAILED exactly when at least one stage status is
  FAILED, and WARNING in every other case.
\<close>

theorem C1_overall_status:
  fixes rep :: TripleValidationReport and now :: datetime
    and r1 r2 r3 :: ValidationResult
  defines "out \<equiv> overall_status (calculate_overall now (with_stages rep r1 r2 r3))"
  shows "(out = PASSED \<longleftrightarrow> status r1 = PASSED \<and> status r2 = PASSED \<and> status r3 = PASSED)
       \<and> (out = FAILED \<longleftrightarrow> status r1 = FAILED \<or> status r2 = FAILED \<or> status r3 = FAILED)
       \<and> (out = WARNING \<longleftrightarrow>
            \<not> (status r1 = PASSED \<and> status r2 = PASSED \<and> status r3 = PASSED)
            \<and> \<not> (status r1 = FAILED \<or> status r2 = FAILED \<or> status r3 = FAILED))"
  unfolding out_def
  by (auto simp: calculate_overall_def present_results_with_stages accumulate_three
        simp del: accumulate.simps)

text \<open>
  C2. When all three stage results are present, the overall score is
  0.40 score1 + 0.35 score2 + 0.25 score3 and the overall confidence is
  0.40 confidence1 + 0.35 confidence2 + 0.25 confidence3. Floats being exact rationals
  here, the equality holds exactly; the program evaluates the same sum, left to right.
\<close>

theorem C2_overall_score:
  fixes rep :: TripleValidationReport and now :: datetime
    and r1 r2 r3 :: ValidationResult
  defines "out \<equiv> calculate_overall now (with_stages rep r1 r2 r3)"
  shows "overall_score out = 4 / 10 * score r1 + 35 / 100 * score r2 + 25 / 100 * score r3
       \<and> overall_confidence out =
           4 / 10 * confidence r1 + 35 / 100 * confidence r2 + 25 / 100 * confidence r3"
  unfolding out_def
  by (simp add: calculate_overall_def present_results_with_stages accumulate_three
        del: accumulate.simps)

subsection \<open>Stage 1\<close>



text \<open>
  C10. For a data type that is not one of lead, property, intelligence and repository,
  the schema validator is built, it holds the lead schema (required fields id, source_url,
  scraped_at), and it validates as the lead validator does, the reported type label apart.
\<close>

theorem C10_unknown_type_uses_lead_schema:
  assumes "dt \<notin> {''lead'', ''property'', ''intelligence'', ''repository''}"
  shows "sv_schema (SchemaValidator_init dt) = lead_schema
       \<and> required (sv_schema (SchemaValidator_init dt)) = [''id'', ''source_url'', ''scraped_at'']
       \<and> SchemaValidator_validate (SchemaValidator_init dt) now data =
           SchemaValidator_validate ((SchemaValidator_init ''lead'')\<lparr> sv_data_type := dt \<rparr>) now data"
  using assms by (simp add: SchemaValidator_init_def SCHEMAS_def lead_schema_def)

theorem C10_witness:
  "''widget'' \<notin> {''lead'', ''property'', ''intelligence'', ''repository''}
   \<and> required (sv_schema (SchemaValidator_init ''widget'')) = [''id'', ''source_url'', ''scraped_at'']"
  using C10_unknown_type_uses_lead_schema [of "''widget''" 0 PNone]
  by (simp add: lead_schema_def)

subsection \<open>Stage 2\<close>


lemma truthy_len: "truthy v \<Longrightarrow> py_len v = Inr n \<Longrightarrow> 1 \<le> n"
  by (cases v) (auto simp: Suc_le_eq)

lemma validate_id_format_False_iff:
  "truthy v \<Longrightarrow> validate_id_format v = Inr False \<longleftrightarrow> (\<exists>n. py_len v = Inr n \<and> 256 < n)"
  by (cases "py_len v") (auto simp: validate_id_format_def dest: truthy_len)

lemma id_check_False_iff:
  "id_check item = Inr False \<longleftrightarrow>
     (map_of item ''id'' = None
      \<or> (\<exists>v. map_of item ''id'' = Some v \<and> (\<not> truthy v \<or> (\<exists>n. py_len v = Inr n \<and> 256 < n))))"
proof (cases "map_of item ''id''")
  case None
  then show ?thesis by (simp add: id_check_def dict_get_def)
next
  case (Some v)
  then show ?thesis
    by (cases "truthy v") (simp_all add: id_check_def dict_get_def validate_id_format_False_iff)
qed






lemma single_record_mismatches:
  assumes "CrossReferenceValidator_validate now (PDict item) = Inr r"
  shows "map_of (details r) ''mismatches'' =
           Some (PInt ((if id_check item = Inr False then 1 else 0)
                      + (if check_internal_consistency item = Inr False then 1 else 0)))"
proof -
  from assms obtain ok c where ok: "id_check item = Inr ok"
    and c: "check_internal_consistency item = Inr c"
    by (auto simp: CrossReferenceValidator_validate_def split: sum.splits)
  from assms ok c have "details r =
      [ (''matches'', PInt (int (fst (tally c (tally ok (0, 0)))))),
        (''mismatches'', PInt (int (snd (tally c (tally ok (0, 0)))))),
        (''total_checks'', PInt (int (fst (tally c (tally ok (0, 0))) + snd (tally c (tally ok (0, 0)))))) ]"
    by (auto simp: CrossReferenceValidator_validate_def Let_def split: prod.splits)
  then show ?thesis using ok c by (cases ok; cases c) (simp_all add: tally_def)
qed

text \<open>
  C5, as the code has it. The identifier check of stage 2 counts a mismatch exactly when
  the id field is absent, or present with a falsy value (the empty string, None, zero, an
  empty container), or present with a length above 256. In the stage result of a single
  record the mismatch count is this unit plus the unit of the numeric check.
\<close>

theorem C5_id_mismatch:
  fixes item :: "(string \<times> pyval) list" and now :: datetime and r :: ValidationResult
  defines "id_bad \<equiv> map_of item ''id'' = None
      \<or> (\<exists>v. map_of item ''id'' = Some v \<and> (\<not> truthy v \<or> (\<exists>n. py_len v = Inr n \<and> 256 < n)))"
  shows "(id_check item = Inr False \<longleftrightarrow> id_bad)
       \<and> (CrossReferenceValidator_validate now (PDict item) = Inr r \<longrightarrow>
            map_of (details r) ''mismatches'' =
              Some (PInt ((if id_bad then 1 else 0)
                         + (if check_internal_consistency item = Inr False then 1 else 0))))"
  unfolding id_bad_def id_check_False_iff [symmetric]
  using single_record_mismatches by blast

text \<open>The theorem at a record without an id field: one mismatch.\<close>

theorem C5_witness:
  "id_check no_id_record = Inr False
   \<and> (\<exists>r. CrossReferenceValidator_validate 0 (PDict no_id_record) = Inr r
          \<and> map_of (details r) ''mismatches'' = Some (PInt 1))"
proof -
  have c: "check_internal_consistency no_id_record = Inr True"
    by (simp add: check_internal_consistency_def no_id_record_def)
  have i: "map_of no_id_record ''id'' = None"
    by (simp add: no_id_record_def)
  obtain r where r: "CrossReferenceValidator_validate 0 (PDict no_id_record) = Inr r"
    by (simp add: CrossReferenceValidator_validate_def c id_check_def dict_get_def i tally_def Let_def)
  from C5_id_mismatch [of no_id_record 0 r] r c i show ?thesis by simp
qed

text \<open>
  C5 as written says that a record with no id field contributes no mismatch from the
  identifier check. \<open>no_id_record\<close> has no id field and passes the numeric check, and
  stage 2 reports one match and one mismatch for it.
\<close>

theorem C5_counterexample:
  "map_of no_id_record ''id'' = None
   \<and> check_internal_consistency no_id_record = Inr True
   \<and> id_check no_id_record = Inr False
   \<and> map_sum id details (CrossReferenceValidator_validate 0 (PDict no_id_record)) =
       Inr [ (''matches'', PInt 1), (''mismatches'', PInt 1), (''total_checks'', PInt 2) ]"
  by (simp add: no_id_record_def check_internal_consistency_def id_check_def dict_get_def
        CrossReferenceValidator_validate_def tally_def Let_def)




subsection \<open>Stage 3\<close>






subsection \<open>Orchestrator\<close>

lemma collect_Inr_iff: "collect os = Inr xs \<longleftrightarrow> os = map Inr xs"
proof (induction os arbitrary: xs rule: collect.induct)
  case 1
  then show ?case by auto
next
  case (2 e rest)
  then show ?case by auto
next
  case (3 x rest)
  then show ?case by (cases "collect rest") (auto simp: Cons_eq_map_conv)
qed

lemma collect_Inl: "collect os = Inl e \<Longrightarrow> Inl e \<in> set os"
  by (induction os rule: collect.induct) (auto split: sum.splits)

lemma find_isl_Some: "List.find isl ys = Some y \<Longrightarrow> isl y \<and> y \<in> set ys"
  by (induction ys) (auto split: if_splits)

lemma gather_cases:
  "(\<exists>e. gather completion os = Inl e \<and> Inl e \<in> set os) \<or> gather completion os = collect os"
proof (cases "List.find isl (map (\<lambda>i. os ! i) (filter (\<lambda>i. i < length os) completion))")
  case None
  then show ?thesis by (simp add: gather_def)
next
  case (Some y)
  from find_isl_Some [OF Some] obtain e where y: "y = Inl e"
    and mem: "y \<in> set (map (\<lambda>i. os ! i) (filter (\<lambda>i. i < length os) completion))"
    by (cases y) auto
  from mem have "y \<in> set os" by auto
  with Some y show ?thesis by (simp add: gather_def)
qed

lemma gather_Inr_iff: "gather completion os = Inr xs \<longleftrightarrow> os = map Inr xs"
  using gather_cases [of completion os] collect_Inr_iff [of os xs] by auto

lemma gather_Inl: "gather completion os = Inl e \<Longrightarrow> Inl e \<in> set os"
  using gather_cases [of completion os] collect_Inl [of os e] by auto

lemma gather_raises_iff: "(\<exists>e. gather completion os = Inl e) \<longleftrightarrow> (\<exists>e. Inl e \<in> set os)"
proof
  assume "\<exists>e. gather completion os = Inl e"
  then show "\<exists>e. Inl e \<in> set os" using gather_Inl by blast
next
  assume "\<exists>e. Inl e \<in> set os"
  then have "\<not> (\<exists>xs. os = map Inr xs)" by auto
  then have "\<not> (\<exists>xs. gather completion os = Inr xs)" by (simp add: gather_Inr_iff)
  then show "\<exists>e. gather completion os = Inl e" by (cases "gather completion os") auto
qed

text \<open>
  C3, as the code has it. \<^verbatim>\<open>validate_batch\<close> has no handler: it returns a list of
  reports exactly when every validation returned, and the list then holds those reports in
  input order; when the validation of some record raises, the batch raises one of the
  exceptions raised, and returns no report for any record.
\<close>

theorem C3_batch_propagates:
  fixes items :: "pyval list" and lib :: library and self :: ComprehensiveValidator
    and clocks :: "nat \<Rightarrow> nat \<Rightarrow> datetime"
  defines "outcomes \<equiv> map (\<lambda>(i, item). ComprehensiveValidator_validate lib self (clocks i) item)
                         (List.enumerate 0 items)"
  shows "(validate_batch lib self completion clocks items = Inr reps \<longleftrightarrow> outcomes = map Inr reps)
       \<and> ((\<exists>e. validate_batch lib self completion clocks items = Inl e \<and> Inl e \<in> set outcomes)
            \<longleftrightarrow> (\<exists>e. Inl e \<in> set outcomes))"
proof -
  have vb: "validate_batch lib self completion clocks items = gather completion outcomes"
    by (simp add: validate_batch_def outcomes_def)
  have a: "gather completion outcomes = Inr reps \<longleftrightarrow> outcomes = map Inr reps"
    by (rule gather_Inr_iff)
  have b: "(\<exists>e. gather completion outcomes = Inl e \<and> Inl e \<in> set outcomes)
             \<longleftrightarrow> (\<exists>e. Inl e \<in> set outcomes)"
    using gather_Inl [of completion outcomes] gather_raises_iff [of completion outcomes]
    by blast
  show ?thesis unfolding vb using a b by (rule conjI)
qed


lemma cr_int_id: "CrossReferenceValidator_validate t (PDict int_id_record) = Inl TypeError"
  by (simp add: CrossReferenceValidator_validate_def int_id_record_def id_check_def dict_get_def
        validate_id_format_def)

lemma validate_int_id:
  "ComprehensiveValidator_validate lib self clock (PDict int_id_record) = Inl TypeError"
  by (simp add: ComprehensiveValidator_validate_def cr_int_id Let_def)

lemma cr_lead_001:
  "CrossReferenceValidator_validate t (PDict lead_001) =
     Inr \<lparr> step = ''Cross-Reference Validation'', status = PASSED, score = 1, confidence = 1,
           errors = [], warnings = [],
           details = [ (''matches'', PInt 2), (''mismatches'', PInt 0), (''total_checks'', PInt 2) ],
           timestamp = t \<rparr>"
  by (simp add: CrossReferenceValidator_validate_def lead_001_def id_check_def dict_get_def
        validate_id_format_def check_internal_consistency_def tally_def Let_def)

lemma validate_lead_001_returns:
  "\<exists>rep. ComprehensiveValidator_validate lib self clock (PDict lead_001) = Inr rep"
  by (simp add: ComprehensiveValidator_validate_def cr_lead_001 Let_def)

text \<open>
  C3 as written has a failure turned into a FAILED report of that record only, the batch
  still returning a report per record. For a batch of \<open>int_id_record\<close>, whose integer id
  makes \<^verbatim>\<open>len\<close> raise in stage 2, and \<open>lead_001\<close>, whose validation returns, the batch
  raises \<^verbatim>\<open>TypeError\<close>.
\<close>

theorem C3_counterexample:
  "validate_batch sample_library (ComprehensiveValidator_init sample_environ STRICT ''lead'')
     [0, 1] sample_clocks [PDict int_id_record, PDict lead_001] = Inl TypeError
   \<and> \<not> isl (ComprehensiveValidator_validate sample_library
              (ComprehensiveValidator_init sample_environ STRICT ''lead'') (sample_clocks 1)
              (PDict lead_001))"
proof -
  obtain rep where rep: "ComprehensiveValidator_validate sample_library
      (ComprehensiveValidator_init sample_environ STRICT ''lead'') (sample_clocks 1)
      (PDict lead_001) = Inr rep"
    using validate_lead_001_returns by blast
  have "validate_batch sample_library (ComprehensiveValidator_init sample_environ STRICT ''lead'')
     [0, 1] sample_clocks [PDict int_id_record, PDict lead_001] = gather [0, 1] [Inl TypeError, Inr rep]"
    using rep by (simp add: validate_batch_def enumerate_simps validate_int_id)
  then show ?thesis using rep by (simp add: gather_def)
qed


lemma batch_Inr_nth:
  assumes "validate_batch lib self completion clocks items = Inr reps"
  shows "length reps = length items"
    and "i < length items \<Longrightarrow>
           ComprehensiveValidator_validate lib self (clocks i) (items ! i) = Inr (reps ! i)"
proof -
  let ?outcomes = "map (\<lambda>(i, item). ComprehensiveValidator_validate lib self (clocks i) item)
                         (List.enumerate 0 items)"
  from assms have eq: "?outcomes = map Inr reps"
    by (simp add: validate_batch_def gather_Inr_iff)
  from arg_cong [OF eq, of length] show len: "length reps = length items" by simp
  assume i: "i < length items"
  from arg_cong [OF eq, of "\<lambda>xs. xs ! i"] i len
  show "ComprehensiveValidator_validate lib self (clocks i) (items ! i) = Inr (reps ! i)"
    by (simp add: nth_enumerate_eq)
qed

lemma all_Inr_map: "\<forall>i < length os. \<exists>x. os ! i = Inr x \<Longrightarrow> \<exists>xs. os = map Inr xs"
proof (induction os)
  case Nil
  then show ?case by simp
next
  case (Cons a os)
  from Cons.prems have "\<forall>i < length os. \<exists>x. os ! i = Inr x" by fastforce
  with Cons.IH obtain xs where xs: "os = map Inr xs" by blast
  from Cons.prems obtain x where "a = Inr x" by fastforce
  with xs have "a # os = map Inr (x # xs)" by simp
  then show ?case by (rule exI)
qed

lemma batch_returns:
  assumes "\<forall>i < length items. \<exists>rep.
             ComprehensiveValidator_validate lib self (clocks i) (items ! i) = Inr rep"
  shows "\<exists>reps. validate_batch lib self completion clocks items = Inr reps"
proof -
  let ?outcomes = "map (\<lambda>(i, item). ComprehensiveValidator_validate lib self (clocks i) item)
                         (List.enumerate 0 items)"
  from assms have "\<forall>i < length ?outcomes. \<exists>x. ?outcomes ! i = Inr x"
    by (simp add: nth_enumerate_eq)
  then obtain reps where "?outcomes = map Inr reps" using all_Inr_map by blast
  then show ?thesis by (auto simp: validate_batch_def gather_Inr_iff)
qed

text \<open>
  C8, as the code has it. A summary is returned exactly when the validation of every
  record returns. Whenever \<^verbatim>\<open>validate_all_intelligence\<close> returns a summary for
  a list of N records, whatever the completion order, its reports list has length N and
  its i-th entry is the rendering of the report returned by the validation of the i-th
  record.
\<close>

theorem C8_batch_order:
  fixes lib :: library and environ :: "string \<rightharpoonup> string" and data_list :: "pyval list"
    and clocks :: "nat \<Rightarrow> nat \<Rightarrow> datetime"
  defines "report_of \<equiv> \<lambda>i. ComprehensiveValidator_validate lib
             (ComprehensiveValidator_init environ STRICT ''lead'') (clocks i) (data_list ! i)"
  shows "((\<exists>s. validate_all_intelligence lib environ completion clocks data_list = Inr s)
            \<longleftrightarrow> (\<forall>i < length data_list. \<exists>rep. report_of i = Inr rep))
       \<and> (validate_all_intelligence lib environ completion clocks data_list = Inr s \<longrightarrow>
            length (reports s) = length data_list
            \<and> (\<forall>i < length data_list. \<exists>rep.
                  report_of i = Inr rep \<and> reports s ! i = TripleValidationReport_to_dict lib rep))"
proof -
  let ?v = "ComprehensiveValidator_init environ STRICT ''lead''"
  let ?run = "validate_all_intelligence lib environ completion clocks data_list"
  have ordered: "length (reports s) = length data_list
       \<and> (\<forall>i < length data_list. \<exists>rep.
             report_of i = Inr rep \<and> reports s ! i = TripleValidationReport_to_dict lib rep)"
    if run: "?run = Inr s" for s
  proof -
    from run obtain reps where reps: "validate_batch lib ?v completion clocks data_list = Inr reps"
      and s: "reports s = map (TripleValidationReport_to_dict lib) reps"
      by (auto simp: validate_all_intelligence_def Let_def split: sum.splits)
    note len = batch_Inr_nth(1) [OF reps]
    have "\<exists>rep. report_of i = Inr rep \<and> reports s ! i = TripleValidationReport_to_dict lib rep"
      if "i < length data_list" for i
      using batch_Inr_nth(2) [OF reps that] that len s by (simp add: report_of_def)
    then show ?thesis using len s by simp
  qed
  have returns: "\<exists>s. ?run = Inr s" if all: "\<forall>i < length data_list. \<exists>rep. report_of i = Inr rep"
  proof -
    have "\<exists>reps. validate_batch lib ?v completion clocks data_list = Inr reps"
      using all unfolding report_of_def by (rule batch_returns)
    then show ?thesis
      by (auto simp: validate_all_intelligence_def Let_def)
  qed
  from ordered returns show ?thesis by blast
qed

lemma validate_lead_002_returns:
  "\<exists>rep. ComprehensiveValidator_validate lib self clock (PDict lead_002) = Inr rep"
proof -
  have "check_internal_consistency lead_002 = Inr True"
    by (simp add: check_internal_consistency_def lead_002_def dict_get_def true_div_def
          float_overflow_def)
  moreover have "id_check lead_002 = Inr True"
    by (simp add: lead_002_def id_check_def dict_get_def validate_id_format_def)
  ultimately have "\<exists>r. CrossReferenceValidator_validate t (PDict lead_002) = Inr r" for t
    by (simp add: CrossReferenceValidator_validate_def tally_def Let_def)
  then obtain r where "CrossReferenceValidator_validate (clock 3) (PDict lead_002) = Inr r"
    by blast
  then show ?thesis by (simp add: ComprehensiveValidator_validate_def Let_def)
qed

text \<open>The theorem at a batch of two records whose second task finishes first.\<close>

theorem C8_witness:
  "\<exists>s. validate_all_intelligence sample_library sample_environ [1, 0] sample_clocks
          [PDict lead_001, PDict lead_002] = Inr s
       \<and> length (reports s) = 2
       \<and> (\<exists>rep. ComprehensiveValidator_validate sample_library
                   (ComprehensiveValidator_init sample_environ STRICT ''lead'') (sample_clocks 1)
                   (PDict lead_002) = Inr rep
               \<and> reports s ! 1 = TripleValidationReport_to_dict sample_library rep)"
proof -
  let ?v = "ComprehensiveValidator_init sample_environ STRICT ''lead''"
  obtain r1 where r1: "ComprehensiveValidator_validate sample_library ?v (sample_clocks 0)
      (PDict lead_001) = Inr r1"
    using validate_lead_001_returns by blast
  obtain r2 where r2: "ComprehensiveValidator_validate sample_library ?v (sample_clocks (Suc 0))
      (PDict lead_002) = Inr r2"
    using validate_lead_002_returns by blast
  have "validate_batch sample_library ?v [1, 0] sample_clocks [PDict lead_001, PDict lead_002]
          = Inr [r1, r2]"
    by (simp add: validate_batch_def enumerate_simps r1 r2 gather_def)
  then obtain s where s: "validate_all_intelligence sample_library sample_environ [1, 0]
      sample_clocks [PDict lead_001, PDict lead_002] = Inr s"
    by (simp add: validate_all_intelligence_def Let_def)
  from C8_batch_order [of sample_library sample_environ "[1, 0]" sample_clocks
      "[PDict lead_001, PDict lead_002]" s] s
  have len: "length (reports s) = 2"
    and nth: "\<forall>i<2. \<exists>rep. ComprehensiveValidator_validate sample_library ?v (sample_clocks i)
                  ([PDict lead_001, PDict lead_002] ! i) = Inr rep
               \<and> reports s ! i = TripleValidationReport_to_dict sample_library rep"
    by simp_all
  from nth have "\<exists>rep. ComprehensiveValidator_validate sample_library ?v (sample_clocks 1)
                  ([PDict lead_001, PDict lead_002] ! 1) = Inr rep
               \<and> reports s ! 1 = TripleValidationReport_to_dict sample_library rep"
    by (rule allE [where x = 1]) simp
  then have "\<exists>rep. ComprehensiveValidator_validate sample_library ?v (sample_clocks 1)
                  (PDict lead_002) = Inr rep
               \<and> reports s ! 1 = TripleValidationReport_to_dict sample_library rep"
    by simp
  with s len show ?thesis by blast
qed

text \<open>
  C8 as written promises a reports list of length N for every input list. For the list
  holding \<open>numeric_id_record\<close> alone no summary is returned.
\<close>

theorem C8_counterexample:
  "validate_all_intelligence sample_library sample_environ [0] sample_clocks
     [PDict numeric_id_record] = Inl TypeError"
proof -
  have "CrossReferenceValidator_validate t (PDict numeric_id_record) = Inl TypeError" for t
    by (simp add: CrossReferenceValidator_validate_def numeric_id_record_def id_check_def
          dict_get_def validate_id_format_def)
  then have "ComprehensiveValidator_validate lib self clock (PDict numeric_id_record) = Inl TypeError"
    for lib self clock
    by (simp add: ComprehensiveValidator_validate_def Let_def)
  then show ?thesis
    by (simp add: validate_all_intelligence_def validate_batch_def enumerate_simps gather_def)
qed

subsection \<open>Repeated validation\<close>

lemma sv_time:
  "SchemaValidator_validate self t data = (SchemaValidator_validate self t' data)\<lparr> timestamp := t \<rparr>"
  by (simp add: SchemaValidator_validate_def Let_def split: prod.splits)

lemma cr_time:
  "CrossReferenceValidator_validate t data =
     map_sum id (\<lambda>r. r\<lparr> timestamp := t \<rparr>) (CrossReferenceValidator_validate t' data)"
  by (simp add: CrossReferenceValidator_validate_def Let_def split: sum.splits prod.splits)

lemma ev_time:
  "ExternalVerifier_validate self t data = (ExternalVerifier_validate self t' data)\<lparr> timestamp := t \<rparr>"
  by (simp add: ExternalVerifier_validate_def Let_def)

lemma overall_with_stages:
  "overall_score (calculate_overall now (with_stages rep r1 r2 r3)) =
     score r1 * (4 / 10) + score r2 * (35 / 100) + score r3 * (25 / 100)"
  "overall_confidence (calculate_overall now (with_stages rep r1 r2 r3)) =
     confidence r1 * (4 / 10) + confidence r2 * (35 / 100) + confidence r3 * (25 / 100)"
  by (simp_all add: calculate_overall_def present_results_with_stages accumulate_three
        del: accumulate.simps)

lemma validate_with_stages:
  "\<exists>base. ComprehensiveValidator_validate lib self clock data =
     map_sum id
       (\<lambda>r2. calculate_overall (clock 5)
          (with_stages base (SchemaValidator_validate (schema_validator self) (clock 2) data) r2
             (ExternalVerifier_validate (external_verifier self) (clock 4) data)))
       (CrossReferenceValidator_validate (clock 3) data)"
  by (rule exI [where x = "\<lparr> validation_id = generate_validation_id lib (clock 0) data,
                     data_type = cv_data_type self,
                     level = cv_level self,
                     step1_result = None,
                     step2_result = None,
                     step3_result = None,
                     overall_status = PENDING,
                     overall_score = 0,
                     overall_confidence = 0,
                     start_time = clock 1,
                     end_time = None \<rparr>"])
     (simp add: ComprehensiveValidator_validate_def with_stages_def Let_def split: sum.splits)

lemma validate_scores:
  "map_sum id (\<lambda>r. (overall_score r, overall_confidence r))
       (ComprehensiveValidator_validate lib self clock data) =
   map_sum id
     (\<lambda>r2. (score (SchemaValidator_validate (schema_validator self) 0 data) * (4 / 10)
              + score r2 * (35 / 100)
              + score (ExternalVerifier_validate (external_verifier self) 0 data) * (25 / 100),
            confidence (SchemaValidator_validate (schema_validator self) 0 data) * (4 / 10)
              + confidence r2 * (35 / 100)
              + confidence (ExternalVerifier_validate (external_verifier self) 0 data) * (25 / 100)))
     (CrossReferenceValidator_validate 0 data)"
proof (cases "CrossReferenceValidator_validate 0 data")
  case (Inl e)
  then have "CrossReferenceValidator_validate (clock 3) data = Inl e"
    using cr_time [of "clock 3" data 0] by simp
  with Inl show ?thesis by (simp add: ComprehensiveValidator_validate_def Let_def)
next
  case (Inr r2)
  then have r2: "CrossReferenceValidator_validate (clock 3) data = Inr (r2\<lparr> timestamp := clock 3 \<rparr>)"
    using cr_time [of "clock 3" data 0] by simp
  have s1: "score (SchemaValidator_validate (schema_validator self) (clock 2) data)
              = score (SchemaValidator_validate (schema_validator self) 0 data)"
    and c1: "confidence (SchemaValidator_validate (schema_validator self) (clock 2) data)
              = confidence (SchemaValidator_validate (schema_validator self) 0 data)"
    using sv_time [of "schema_validator self" "clock 2" data 0] by simp_all
  have s3: "score (ExternalVerifier_validate (external_verifier self) (clock 4) data)
              = score (ExternalVerifier_validate (external_verifier self) 0 data)"
    and c3: "confidence (ExternalVerifier_validate (external_verifier self) (clock 4) data)
              = confidence (ExternalVerifier_validate (external_verifier self) 0 data)"
    using ev_time [of "external_verifier self" "clock 4" data 0] by simp_all
  from validate_with_stages [of lib self clock data] obtain base where
    "ComprehensiveValidator_validate lib self clock data =
       Inr (calculate_overall (clock 5)
          (with_stages base (SchemaValidator_validate (schema_validator self) (clock 2) data)
             (r2\<lparr> timestamp := clock 3 \<rparr>)
             (ExternalVerifier_validate (external_verifier self) (clock 4) data)))"
    unfolding r2 by auto
  then show ?thesis
    unfolding Inr by (simp add: overall_with_stages s1 c1 s3 c3)
qed

text \<open>
  C9. Two validations of the same record by the same validator (same level, data type and
  credentials), at different times, end alike: both raise the same exception, or both
  return reports with the same overall score and the same overall confidence. The clock
  readings, which feed the timestamps and the validation id, do not reach the scores.
\<close>

theorem C9_idempotent_scores:
  "map_sum id (\<lambda>r. (overall_score r, overall_confidence r))
       (ComprehensiveValidator_validate lib self clock data) =
   map_sum id (\<lambda>r. (overall_score r, overall_confidence r))
       (ComprehensiveValidator_validate lib self clock' data)"
  unfolding validate_scores ..

end
